theory Spec2Isabelle
  imports Main
begin

section \<open>JSON values and the JavaScript operations applied to them\<close>

text \<open>
  Every value the server handles comes out of \<open>JSON.parse\<close> or is built from object
  literals, so a value is JSON data. Numbers are kept as integers: the program never
  computes with them, it only tests them for truthiness and copies them. The JavaScript
  value \<open>undefined\<close> is not JSON data; it is \<open>None\<close> of \<open>json option\<close>.
\<close>

datatype json =
    JNull
  | JBool bool
  | JNum int
  | JStr string
  | JArr "json list"
  | JObj "(string \<times> json) list"

type_synonym jsval = "json option"

text \<open>\<open>ToBoolean\<close>: what \<open>!x\<close>, \<open>x || y\<close> and \<open>x && y\<close> test.\<close>

fun truthy :: "jsval \<Rightarrow> bool" where
  "truthy None = False"
| "truthy (Some JNull) = False"
| "truthy (Some (JBool b)) = b"
| "truthy (Some (JNum n)) = (n \<noteq> 0)"
| "truthy (Some (JStr s)) = (s \<noteq> [])"
| "truthy (Some (JArr xs)) = True"
| "truthy (Some (JObj kvs)) = True"

text \<open>\<open>typeof x === 'object'\<close> holds of \<open>null\<close>, arrays and objects.\<close>

fun is_object :: "jsval \<Rightarrow> bool" where
  "is_object (Some JNull) = True"
| "is_object (Some (JArr xs)) = True"
| "is_object (Some (JObj kvs)) = True"
| "is_object _ = False"

text \<open>
  \<open>v.k\<close> for a value \<open>v\<close> that is neither \<open>null\<close> nor \<open>undefined\<close>, and a key
  \<open>k\<close> among \<open>id\<close>, \<open>method\<close>, \<open>jsonrpc\<close>, \<open>params\<close>, \<open>name\<close>,
  \<open>arguments\<close>: an object yields its entry, anything else (array, string, number,
  boolean) has no such property and yields \<open>undefined\<close>.
\<close>

fun js_get :: "json \<Rightarrow> string \<Rightarrow> jsval" where
  "js_get (JObj kvs) k = map_of kvs k"
| "js_get _ k = None"

text \<open>\<open>k in v\<close> for an object or array \<open>v\<close> and the same keys.\<close>

fun has_key :: "string \<Rightarrow> json \<Rightarrow> bool" where
  "has_key k (JObj kvs) = (k \<in> set (map fst kvs))"
| "has_key k _ = False"

datatype js_error =
    Error string
  | TypeError string
  | HeadersSent

text \<open>\<open>x.k\<close> in general: reading a property of \<open>null\<close> or \<open>undefined\<close> throws.\<close>

fun member :: "jsval \<Rightarrow> string \<Rightarrow> js_error + jsval" where
  "member None k = Inl (TypeError ''Cannot read properties of undefined'')"
| "member (Some JNull) k = Inl (TypeError ''Cannot read properties of null'')"
| "member (Some v) k = Inr (js_get v k)"

text \<open>\<open>x?.k\<close>: \<open>undefined\<close> where \<open>x.k\<close> would throw.\<close>

fun opt_member :: "jsval \<Rightarrow> string \<Rightarrow> jsval" where
  "opt_member None k = None"
| "opt_member (Some JNull) k = None"
| "opt_member (Some v) k = js_get v k"

text \<open>\<open>x || null\<close>.\<close>

definition or_null :: "jsval \<Rightarrow> json" where
  "or_null x = (case x of None \<Rightarrow> JNull | Some v \<Rightarrow> (if truthy x then v else JNull))"

text \<open>
  Whether converting a value to a string throws, as a template literal \<open>${x}\<close> does.
  An object is converted by its \<open>toString\<close> method. An object out of \<open>JSON.parse\<close>
  that has a property named \<open>toString\<close> holds there a value that cannot be called; the
  conversion then turns to the inherited \<open>valueOf\<close>, which returns the object itself,
  and throws a \<open>TypeError\<close>. An array joins the conversions of its elements. Every
  other value, \<open>undefined\<close> included, converts.
\<close>

fun to_string_throws :: "json \<Rightarrow> bool" where
  "to_string_throws (JObj kvs) = (''toString'' \<in> set (map fst kvs))"
| "to_string_throws (JArr xs) = (\<exists>x \<in> set xs. to_string_throws x)"
| "to_string_throws _ = False"

definition interpolation_throws :: "jsval \<Rightarrow> bool" where
  "interpolation_throws x = (case x of None \<Rightarrow> False | Some v \<Rightarrow> to_string_throws v)"

text \<open>
  An object literal. A property whose value is \<open>undefined\<close> reads as \<open>undefined\<close>
  and is left out by \<open>JSON.stringify\<close>, exactly as if the property were absent; the
  literals of this program are only read and serialized, so such a property is dropped
  here.
\<close>

fun defined_fields :: "(string \<times> jsval) list \<Rightarrow> (string \<times> json) list" where
  "defined_fields [] = []"
| "defined_fields ((k, None) # fs) = defined_fields fs"
| "defined_fields ((k, Some v) # fs) = (k, v) # defined_fields fs"

definition obj :: "(string \<times> jsval) list \<Rightarrow> json" where
  "obj fs = JObj (defined_fields fs)"

section \<open>The HTTP response object\<close>

text \<open>
  The Express response is kept as what it has put on the wire: the list of responses
  (status, body) that reached the client, and the number of writes it refused. A body
  is \<open>None\<close> when the response was ended without one.
  \<open>res.status(s).json(b)\<close> throws once the headers are sent;
  \<open>res.status(s).end()\<close> then does nothing.
\<close>

record response =
  wire :: "(nat \<times> json option) list"
  refused :: nat

definition fresh :: response where
  "fresh = \<lparr>wire = [], refused = 0\<rparr>"

definition headersSent :: "response \<Rightarrow> bool" where
  "headersSent r = (wire r \<noteq> [])"

definition status_json :: "nat \<Rightarrow> json \<Rightarrow> response \<Rightarrow> js_error option \<times> response" where
  "status_json s b r =
     (if headersSent r then (Some HeadersSent, r\<lparr>refused := refused r + 1\<rparr>)
      else (None, r\<lparr>wire := wire r @ [(s, Some b)]\<rparr>))"

definition status_end :: "nat \<Rightarrow> response \<Rightarrow> response" where
  "status_end s r = (if headersSent r then r else r\<lparr>wire := wire r @ [(s, None)]\<rparr>)"

section \<open>HttpOnceTransport\<close>

text \<open>
  What the session engine does inside one \<open>onmessage(msg)\<close> call: it may call
  \<open>send\<close> and \<open>close\<close> on the transport, and it may throw. Calls it makes later,
  from its own asynchronous tasks, are further invocations on the transport.
\<close>

datatype call = Send jsval | Close

datatype reaction = Reaction "call list" "js_error option"

text \<open>
  The fields of the class. \<open>resolved\<close> counts the invocations of
  \<open>responseResolve()\<close>, the completion signal; \<open>warnings\<close> those of
  \<open>console.warn\<close>; \<open>delivered\<close> lists the messages handed to \<open>onmessage\<close>,
  \<open>routed\<close> the errors handed to \<open>onerror\<close>, \<open>closes\<close> counts the calls of
  \<open>onclose\<close>. The three callbacks are optional: \<open>onerror\<close> and \<open>onclose\<close> say
  whether one is set.
\<close>

record transport =
  inbound :: jsval
  res :: response
  responded :: bool
  resolved :: nat
  warnings :: nat
  delivered :: "json list"
  routed :: "js_error list"
  closes :: nat
  onmessage :: "(json \<Rightarrow> reaction) option"
  onerror :: bool
  onclose :: bool

definition HttpOnceTransport :: "jsval \<Rightarrow> response \<Rightarrow> transport" where
  "HttpOnceTransport inb r =
     \<lparr>inbound = inb, res = r, responded = False, resolved = 0, warnings = 0,
      delivered = [], routed = [], closes = 0,
      onmessage = None, onerror = False, onclose = False\<rparr>"

definition responseResolve :: "transport \<Rightarrow> transport" where
  "responseResolve t = t\<lparr>resolved := resolved t + 1\<rparr>"

definition internal_error_body :: "json \<Rightarrow> json" where
  "internal_error_body i =
     obj [(''jsonrpc'', Some (JStr ''2.0'')),
          (''id'', Some i),
          (''error'', Some (obj [(''code'', Some (JNum (- 32603))),
                                 (''message'', Some (JStr ''Internal error''))]))]"

text \<open>
  \<open>send(message)\<close>. The first component of the result is the error the returned
  promise rejects with, if any.
\<close>

definition send :: "jsval \<Rightarrow> transport \<Rightarrow> js_error option \<times> transport" where
  "send message t =
     (if responded t then (None, t\<lparr>warnings := warnings t + 1\<rparr>)
      else
        let t1 = t\<lparr>responded := True\<rparr>;
            wrapped = obj [(''jsonrpc'', Some (JStr ''2.0'')),
                           (''id'', Some (or_null (opt_member (inbound t1) ''id''))),
                           (''result'', message)];
            body = (case message of
                      None \<Rightarrow> wrapped
                    | Some m \<Rightarrow>
                        if truthy (Some m) \<and> truthy (js_get m ''jsonrpc'')
                           \<and> js_get m ''id'' \<noteq> None
                        then m else wrapped)
        in case status_json 200 body (res t1) of
             (None, r) \<Rightarrow> (None, responseResolve (t1\<lparr>res := r\<rparr>))
           | (Some err, r) \<Rightarrow>
               (if \<not> headersSent r
                then (case status_json 500
                             (internal_error_body (or_null (opt_member (inbound t1) ''id''))) r of
                        (e, r') \<Rightarrow> (e, responseResolve (t1\<lparr>res := r'\<rparr>)))
                else (None, responseResolve (t1\<lparr>res := r\<rparr>))))"

text \<open>\<open>sendError(code, message, id)\<close>; the first component is the exception thrown.\<close>

definition sendError :: "int \<Rightarrow> string \<Rightarrow> json \<Rightarrow> transport \<Rightarrow> js_error option \<times> transport" where
  "sendError code message i t =
     (if responded t then (None, t)
      else
        let t1 = t\<lparr>responded := True\<rparr>
        in case status_json 200
                  (obj [(''jsonrpc'', Some (JStr ''2.0'')),
                        (''id'', Some i),
                        (''error'', Some (obj [(''code'', Some (JNum code)),
                                               (''message'', Some (JStr message))]))])
                  (res t1) of
             (None, r) \<Rightarrow> (None, responseResolve (t1\<lparr>res := r\<rparr>))
           | (Some err, r) \<Rightarrow> (Some err, t1\<lparr>res := r\<rparr>))"

definition close :: "transport \<Rightarrow> transport" where
  "close t =
     (let t1 = (if \<not> responded t \<and> \<not> headersSent (res t)
                then responseResolve (t\<lparr>res := status_end 204 (res t)\<rparr>)
                else t)
      in if onclose t1 then t1\<lparr>closes := closes t1 + 1\<rparr> else t1)"

text \<open>
  One \<open>this.onmessage(msg)\<close> call: the message is delivered, the engine's calls on the
  transport are carried out in order, and the engine's exception, if any, propagates.
\<close>

fun perform :: "call list \<Rightarrow> transport \<Rightarrow> transport" where
  "perform [] t = t"
| "perform (Send m # cs) t = perform cs (snd (send m t))"
| "perform (Close # cs) t = perform cs (close t)"

definition call_onmessage :: "(json \<Rightarrow> reaction) \<Rightarrow> json \<Rightarrow> transport \<Rightarrow> js_error option \<times> transport" where
  "call_onmessage f msg t =
     (case f msg of
        Reaction cs e \<Rightarrow> (e, perform cs (t\<lparr>delivered := delivered t @ [msg]\<rparr>)))"

text \<open>The \<open>for (const msg of this.inbound)\<close> loop; an exception ends it.\<close>

fun deliver_all :: "(json \<Rightarrow> reaction) \<Rightarrow> json list \<Rightarrow> transport \<Rightarrow> js_error option \<times> transport" where
  "deliver_all f [] t = (None, t)"
| "deliver_all f (msg # msgs) t =
     (case call_onmessage f msg t of
        (None, t') \<Rightarrow> deliver_all f msgs t'
      | (Some e, t') \<Rightarrow> (Some e, t'))"

text \<open>
  How a call of \<open>start()\<close> ends: its promise fulfils, it stays suspended on the
  completion signal, or its promise rejects.
\<close>

datatype outcome = Returned | Suspended | Rejected js_error

text \<open>The \<open>catch (err)\<close> block of \<open>start()\<close>.\<close>

definition start_catch :: "js_error \<Rightarrow> transport \<Rightarrow> outcome \<times> transport" where
  "start_catch err t =
     (let t1 = (if onerror t then t\<lparr>routed := routed t @ [err]\<rparr> else t)
      in if responded t1 then (Returned, t1)
         else (case member (inbound t1) ''id'' of
                 Inl e \<Rightarrow> (Rejected e, t1)
               | Inr i \<Rightarrow>
                   (case sendError (- 32603) ''Internal error'' (or_null i) t1 of
                      (None, t2) \<Rightarrow> (Returned, t2)
                    | (Some e, t2) \<Rightarrow> (Rejected e, t2))))"

definition handshake :: json where
  "handshake =
     obj [(''protocolVersion'', Some (JStr ''2024-11-05'')),
          (''capabilities'',
             Some (obj [(''tools'', Some (obj [(''listChanged'', Some (JBool False))])),
                        (''logging'', Some (obj []))])),
          (''serverInfo'',
             Some (obj [(''name'', Some (JStr ''opencti-server'')),
                        (''version'', Some (JStr ''0.1.0''))]))]"

text \<open>A statement of the \<open>try\<close> block that may throw, followed by \<open>return\<close>.\<close>

definition then_return :: "js_error option \<times> transport \<Rightarrow> outcome \<times> transport" where
  "then_return x = (case x of (None, t) \<Rightarrow> (Returned, t) | (Some e, t) \<Rightarrow> start_catch e t)"

definition start :: "transport \<Rightarrow> outcome \<times> transport" where
  "start t =
     (case inbound t of
        None \<Rightarrow> start_catch (Error ''Invalid JSON-RPC message structure'') t
      | Some inb \<Rightarrow>
          if \<not> truthy (Some inb) \<or> \<not> is_object (Some inb)
          then start_catch (Error ''Invalid JSON-RPC message structure'') t
          else
            let isNotification = \<not> has_key ''id'' inb;
                method = js_get inb ''method''
            in
              if method = Some (JStr ''initialize'') then
                then_return
                  (send (Some (obj [(''jsonrpc'', Some (JStr ''2.0'')),
                                    (''id'', js_get inb ''id''),
                                    (''result'', Some handshake)])) t)
              else if method = Some (JStr ''notifications/initialized'') then
                (Returned,
                 responseResolve (t\<lparr>responded := True,
                                      res := status_end 204 (res t)\<rparr>))
              else if method = Some (JStr ''ping'') then
                then_return
                  (send (Some (obj [(''jsonrpc'', Some (JStr ''2.0'')),
                                    (''id'', js_get inb ''id''),
                                    (''result'', Some (obj []))])) t)
              else if \<not> isNotification
                      \<and> (\<not> truthy (js_get inb ''jsonrpc'') \<or> \<not> truthy (js_get inb ''method''))
              then then_return (sendError (- 32600) ''Invalid Request'' JNull t)
              else if isNotification \<and> \<not> truthy (js_get inb ''method'')
              then then_return (sendError (- 32600) ''Invalid Request'' JNull t)
              else
                (case (case onmessage t of
                         None \<Rightarrow> (None, t)
                       | Some f \<Rightarrow>
                           (case inb of
                              JArr msgs \<Rightarrow> deliver_all f msgs t
                            | _ \<Rightarrow> call_onmessage f inb t)) of
                   (Some e, t') \<Rightarrow> start_catch e t'
                 | (None, t') \<Rightarrow>
                     (if 0 < resolved t' then (Returned, t') else (Suspended, t'))))"

section \<open>Invocations of the transport\<close>

text \<open>
  The four methods, as the session engine or the endpoint may invoke them in any order
  on one transport.
\<close>

datatype invocation =
    InvStart
  | InvSend jsval
  | InvSendError int string json
  | InvClose

fun invoke :: "invocation \<Rightarrow> transport \<Rightarrow> transport" where
  "invoke InvStart t = snd (start t)"
| "invoke (InvSend m) t = snd (send m t)"
| "invoke (InvSendError code message i) t = snd (sendError code message i t)"
| "invoke InvClose t = close t"

fun run :: "invocation list \<Rightarrow> transport \<Rightarrow> transport" where
  "run [] t = t"
| "run (i # is) t = run is (invoke i t)"

section \<open>The \<open>/mcp\<close> endpoint\<close>

text \<open>
  \<open>server.connect(transport)\<close>: the session engine installs its callbacks on the
  transport and starts it.
\<close>

definition connect :: "(json \<Rightarrow> reaction) \<Rightarrow> transport \<Rightarrow> outcome \<times> transport" where
  "connect engine t = start (t\<lparr>onmessage := Some engine, onerror := True, onclose := True\<rparr>)"

text \<open>\<open>e instanceof Error ? e.message : String(e)\<close>.\<close>

fun message_of :: "js_error \<Rightarrow> string" where
  "message_of (Error m) = m"
| "message_of (TypeError m) = m"
| "message_of HeadersSent = ''Cannot set headers after they are sent to the client''"

definition envelope_error :: "int \<Rightarrow> string \<Rightarrow> json \<Rightarrow> json" where
  "envelope_error code message i =
     obj [(''jsonrpc'', Some (JStr ''2.0'')),
          (''error'', Some (obj [(''code'', Some (JNum code)),
                                 (''message'', Some (JStr message))])),
          (''id'', Some i)]"

text \<open>The \<open>catch (e)\<close> block of the route.\<close>

definition route_catch :: "js_error \<Rightarrow> response \<Rightarrow> response" where
  "route_catch e r =
     (if \<not> headersSent r
      then snd (status_json 500
                  (obj [(''jsonrpc'', Some (JStr ''2.0'')),
                        (''error'', Some (obj [(''code'', Some (JNum (- 32603))),
                                               (''message'', Some (JStr ''Internal error'')),
                                               (''data'', Some (JStr (message_of e)))])),
                        (''id'', Some JNull)]) r)
      else r)"

text \<open>\<open>return res.status(400).json(body)\<close> inside the \<open>try\<close> block.\<close>

definition reject :: "json \<Rightarrow> response \<Rightarrow> response" where
  "reject body r =
     (case status_json 400 body r of
        (None, r') \<Rightarrow> r'
      | (Some e, r') \<Rightarrow> route_catch e r')"

text \<open>
  How the route ends: without having constructed a transport, or with the transport it
  constructed and connected (whose \<open>res\<close> is the response).
\<close>

datatype route_result = NoAdapter response | WithAdapter outcome transport

text \<open>
  The route, from \<open>const inbound = req.body\<close> on. After the test for an empty body it
  logs the request; the second log line interpolates \<open>inbound.method\<close> and
  \<open>inbound.id\<close> into a template literal, inside the \<open>try\<close> block, so a value that
  does not convert to a string sends the route to its \<open>catch\<close> block.
\<close>

definition mcp_route :: "(json \<Rightarrow> reaction) \<Rightarrow> jsval \<Rightarrow> response \<Rightarrow> route_result" where
  "mcp_route engine inb r =
     (if \<not> truthy inb
      then NoAdapter (reject (envelope_error (- 32700) ''Parse error: Empty request body'' JNull) r)
      else if interpolation_throws (opt_member inb ''method'')
              \<or> interpolation_throws (opt_member inb ''id'')
      then NoAdapter (route_catch (TypeError ''Cannot convert object to primitive value'') r)
      else if \<not> truthy (opt_member inb ''jsonrpc'')
              \<or> opt_member inb ''jsonrpc'' \<noteq> Some (JStr ''2.0'')
      then NoAdapter (reject (envelope_error (- 32600) (''Invalid Request: jsonrpc must be '' @ [CHR 0x22] @ ''2.0'' @ [CHR 0x22])
                                (or_null (opt_member inb ''id''))) r)
      else if \<not> truthy (opt_member inb ''method'')
      then NoAdapter (reject (envelope_error (- 32600) ''Invalid Request: method is required''
                                (or_null (opt_member inb ''id''))) r)
      else
        (case connect engine (HttpOnceTransport inb r) of
           (Rejected e, t) \<Rightarrow> WithAdapter (Rejected e) (t\<lparr>res := route_catch e (res t)\<rparr>)
         | (oc, t) \<Rightarrow> WithAdapter oc t))"

text \<open>The Express error handler registered after the routes.\<close>

definition error_handler :: "string \<Rightarrow> response \<Rightarrow> response" where
  "error_handler message r =
     (if \<not> headersSent r
      then snd (status_json 500
                  (obj [(''error'', Some (JStr ''Internal Server Error'')),
                        (''message'', Some (JStr message))]) r)
      else r)"

text \<open>
  A POST to \<open>/mcp\<close> that passes the optional authentication middleware. The
  \<open>express.json()\<close> middleware runs first: when the body does not parse it passes its
  error on, which skips the route and reaches the error handler; otherwise the route
  sees \<open>req.body\<close>: the parsed body, which is an object or an array because the parser
  is strict, or what Express leaves there when the request had no body.
\<close>

datatype body = ParseFailed string | Parsed jsval

definition post_mcp :: "(json \<Rightarrow> reaction) \<Rightarrow> body \<Rightarrow> route_result" where
  "post_mcp engine b =
     (case b of
        ParseFailed message \<Rightarrow> NoAdapter (error_handler message fresh)
      | Parsed inb \<Rightarrow> mcp_route engine inb fresh)"

fun reply :: "route_result \<Rightarrow> (nat \<times> json option) list" where
  "reply (NoAdapter r) = wire r"
| "reply (WithAdapter oc t) = wire (res t)"

section \<open>The \<open>tools/call\<close> handler\<close>

text \<open>
  What lies outside the repository is taken as a parameter: the two forms of
  \<open>JSON.stringify\<close> the handler uses, the message the SDK's \<open>McpError\<close> builds
  from a code and a text, and the \<open>RequestHandler\<close> methods, which query the remote
  service and return a result or throw.
\<close>

datatype tool_error =
    AxiosError jsval string
  | McpError int string
  | OtherError string
  | NonError string

record collaborators =
  stringify :: "json \<Rightarrow> string"
  stringify_indented :: "json \<Rightarrow> string"
  mcp_message :: "int \<Rightarrow> string \<Rightarrow> string"
  requestHandler :: "string \<Rightarrow> json \<Rightarrow> tool_error + json"

definition MethodNotFound :: int where
  "MethodNotFound = - 32601"

definition TOOL_HANDLERS :: "(string \<times> string) list" where
  "TOOL_HANDLERS =
     [(''get_sector_by_name'', ''getSectorByName''),
      (''list_sectors'', ''listSectors''),
      (''list_countries'', ''listCountries''),
      (''list_regions'', ''listRegions''),
      (''get_report_types'', ''getReportTypes''),
      (''get_reports_by_filters'', ''getReportsByFilters''),
      (''get_malware_by_name'', ''getMalwareByName''),
      (''get_campaigns_by_filters'', ''getCampaignsByFilters''),
      (''get_indicators_by_object_and_type'', ''getIndicatorsByObjectAndType''),
      (''get_stix_relationships_distribution'', ''getStixRelationshipsDistribution''),
      (''get_stix_relationships_distribution_with_dynamic_filters'',
       ''getStixRelationshipsDistributionWithDynamicFilters'')]"

text \<open>
  \<open>TOOL_HANDLERS\<close> is an object literal, so \<open>TOOL_HANDLERS[name]\<close> also finds what
  \<open>Object.prototype\<close> provides. Such a value is truthy but names no method of the
  request handler, and calling the missing method throws a \<open>TypeError\<close>.
\<close>

definition object_prototype :: "string list" where
  "object_prototype =
     [''constructor'', ''hasOwnProperty'', ''isPrototypeOf'', ''propertyIsEnumerable'',
      ''toLocaleString'', ''toString'', ''valueOf'', ''__proto__'',
      ''__defineGetter__'', ''__defineSetter__'', ''__lookupGetter__'', ''__lookupSetter__'']"

definition error_result :: "string \<Rightarrow> json" where
  "error_result text =
     obj [(''content'', Some (JArr [obj [(''type'', Some (JStr ''text'')),
                                         (''text'', Some (JStr text))]])),
          (''isError'', Some (JBool True))]"

text \<open>\<open>handleError\<close> of the one-shot HTTP server: every error becomes a result.\<close>

definition handleError :: "collaborators \<Rightarrow> tool_error \<Rightarrow> json" where
  "handleError c error =
     (case error of
        AxiosError data message \<Rightarrow>
          error_result (''OpenCTI API error: '' @
             (case data of
                None \<Rightarrow> message
              | Some d \<Rightarrow> if truthy data then stringify c d else message))
      | McpError code message \<Rightarrow> error_result (''MCP Error: '' @ mcp_message c code message)
      | OtherError message \<Rightarrow> error_result (''Unexpected error: '' @ message)
      | NonError shown \<Rightarrow> error_result (''Unexpected error: '' @ shown))"

text \<open>\<open>request.params.arguments || {}\<close>.\<close>

definition or_empty :: "jsval \<Rightarrow> json" where
  "or_empty x = (case x of None \<Rightarrow> JObj [] | Some v \<Rightarrow> (if truthy x then v else JObj []))"

definition callTool :: "collaborators \<Rightarrow> string \<Rightarrow> jsval \<Rightarrow> json" where
  "callTool c toolName arguments =
     (case map_of TOOL_HANDLERS toolName of
        None \<Rightarrow>
          if toolName \<in> set object_prototype
          then handleError c (OtherError ''this.requestHandler[handlerMethod] is not a function'')
          else handleError c (McpError MethodNotFound (''Unknown tool: '' @ toolName))
      | Some handlerMethod \<Rightarrow>
          (case requestHandler c handlerMethod (or_empty arguments) of
             Inl error \<Rightarrow> handleError c error
           | Inr result \<Rightarrow>
               obj [(''content'',
                     Some (JArr [obj [(''type'', Some (JStr ''text'')),
                                      (''text'', Some (JStr (stringify_indented c result)))]]))]))"

text \<open>
  The SSE server of \<open>index-http.ts\<close> and the stdio server have the same handler for
  \<open>tools/call\<close>, but their \<open>handleError\<close> turns only an Axios error into a result and
  rethrows every other error, so the handler's promise rejects with it.
\<close>

definition handleError_sse :: "collaborators \<Rightarrow> tool_error \<Rightarrow> tool_error + json" where
  "handleError_sse c error =
     (case error of
        AxiosError data message \<Rightarrow>
          Inr (error_result (''OpenCTI API error: '' @
             (case data of
                None \<Rightarrow> message
              | Some d \<Rightarrow> if stringify c d \<noteq> [] then stringify c d else message)))
      | _ \<Rightarrow> Inl error)"

definition callTool_sse :: "collaborators \<Rightarrow> string \<Rightarrow> jsval \<Rightarrow> tool_error + json" where
  "callTool_sse c toolName arguments =
     (case map_of TOOL_HANDLERS toolName of
        None \<Rightarrow>
          if toolName \<in> set object_prototype
          then handleError_sse c (OtherError ''this.requestHandler[handlerMethod] is not a function'')
          else handleError_sse c (McpError MethodNotFound (''Unknown tool: '' @ toolName))
      | Some handlerMethod \<Rightarrow>
          (case requestHandler c handlerMethod (or_empty arguments) of
             Inl error \<Rightarrow> handleError_sse c error
           | Inr result \<Rightarrow>
               Inr (obj [(''content'',
                          Some (JArr [obj [(''type'', Some (JStr ''text'')),
                                           (''text'', Some (JStr (stringify_indented c result)))]]))])))"

text \<open>
  Modelled from the spec: the Session Engine is the SDK's \<open>Server\<close> class, which the
  repository imports and does not contain. The spec says it turns a \<open>tools/call\<close>
  message into a result using the tool registry and then calls back into the
  transport's response path. Here it hands the message's \<open>params.name\<close> and
  \<open>params.arguments\<close> to the registered handler and passes what the handler returns
  to \<open>send\<close>, either as a complete response carrying the request's id or as the bare
  result, which are the two forms \<open>send\<close> accepts. For any other message it makes no
  call.
\<close>

definition tools_call_answer :: "collaborators \<Rightarrow> bool \<Rightarrow> json \<Rightarrow> json option" where
  "tools_call_answer c complete msg =
     (if js_get msg ''method'' = Some (JStr ''tools/call'')
      then (case opt_member (js_get msg ''params'') ''name'' of
              Some (JStr toolName) \<Rightarrow>
                (let result = callTool c toolName (opt_member (js_get msg ''params'') ''arguments'')
                 in Some (if complete
                          then obj [(''jsonrpc'', Some (JStr ''2.0'')),
                                    (''id'', js_get msg ''id''),
                                    (''result'', Some result)]
                          else result))
            | _ \<Rightarrow> None)
      else None)"

text \<open>
  The engine answering within the \<open>onmessage\<close> call. The SDK answers from a later
  task instead, when \<open>start\<close> is already suspended; that is \<open>idle_engine\<close> followed by
  a \<open>send\<close> of the answer.
\<close>

definition tools_call_engine :: "collaborators \<Rightarrow> bool \<Rightarrow> json \<Rightarrow> reaction" where
  "tools_call_engine c complete msg =
     (case tools_call_answer c complete msg of
        None \<Rightarrow> Reaction [] None
      | Some answer \<Rightarrow> Reaction [Send (Some answer)] None)"

definition idle_engine :: "json \<Rightarrow> reaction" where
  "idle_engine msg = Reaction [] None"

section \<open>The response invariant\<close>

text \<open>
  At most one response is on the wire, and one is there whenever \<open>responded\<close> is set.
\<close>

definition once :: "transport \<Rightarrow> bool" where
  "once t = (length (wire (res t)) \<le> 1 \<and> (responded t \<longrightarrow> wire (res t) \<noteq> []))"

section \<open>Example messages\<close>

definition request :: "json \<Rightarrow> string \<Rightarrow> json" where
  "request i m = JObj [(''jsonrpc'', JStr ''2.0''), (''id'', i), (''method'', JStr m)]"

definition notification :: "string \<Rightarrow> json" where
  "notification m = JObj [(''jsonrpc'', JStr ''2.0''), (''method'', JStr m)]"

text \<open>Engines for the examples: one that answers every message, one that throws.\<close>

definition answering :: "jsval \<Rightarrow> json \<Rightarrow> reaction" where
  "answering m msg = Reaction [Send m] None"

definition throwing :: "js_error \<Rightarrow> json \<Rightarrow> reaction" where
  "throwing e msg = Reaction [] (Some e)"

text \<open>Decimal notation, for the error code in the message of an \<open>McpError\<close>.\<close>

definition digit :: "nat \<Rightarrow> char" where
  "digit d = ''0123456789'' ! (d mod 10)"

function show_nat :: "nat \<Rightarrow> string" where
  "show_nat n = (if n < 10 then [digit n] else show_nat (n div 10) @ [digit (n mod 10)])"
  by pat_completeness auto
termination
  by (relation "measure id") auto

definition show_int :: "int \<Rightarrow> string" where
  "show_int k = (if k < 0 then CHR ''-'' # show_nat (nat (- k)) else show_nat (nat k))"

text \<open>
  Collaborators for the examples: a remote service that cannot be reached, and the
  message \<open>MCP error <code>: <text>\<close> of the SDK's \<open>McpError\<close>.
\<close>

definition unreachable :: collaborators where
  "unreachable =
     \<lparr>stringify = (\<lambda>j. ''{}''),
      stringify_indented = (\<lambda>j. ''{}''),
      mcp_message = (\<lambda>code text. ''MCP error '' @ show_int code @ '': '' @ text),
      requestHandler = (\<lambda>handlerMethod arguments. Inl (OtherError ''connect ECONNREFUSED''))\<rparr>"

definition call_request :: "json \<Rightarrow> string \<Rightarrow> json" where
  "call_request i toolName =
     JObj [(''jsonrpc'', JStr ''2.0''), (''id'', i), (''method'', JStr ''tools/call''),
           (''params'', JObj [(''name'', JStr toolName), (''arguments'', JObj [])])]"

section \<open>Unfolding rules\<close>

lemmas wire_defs = status_json_def status_end_def headersSent_def responseResolve_def

lemmas start_defs = start_def then_return_def start_catch_def send_def sendError_def
  call_onmessage_def HttpOnceTransport_def fresh_def obj_def or_null_def

lemmas route_defs = post_mcp_def mcp_route_def connect_def reject_def route_catch_def
  envelope_error_def error_handler_def interpolation_throws_def

section \<open>Handshake methods answered by the transport itself\<close>

text \<open>
  C9. A message whose method is \<open>notifications/initialized\<close> is answered with status
  204 and no body, and the completion signal is resolved, whether or not the message
  carries an id: the transport sets \<open>responded\<close>, ends the response and resolves, and
  nothing else changes, so no id is echoed and the session engine is not called.
\<close>

theorem start_notifications_initialized:
  assumes "inbound t = Some (JObj kvs)"
    and "map_of kvs ''method'' = Some (JStr ''notifications/initialized'')"
    and "wire (res t) = []"
  shows "start t =
           (Returned,
            t\<lparr>responded := True,
               res := (res t)\<lparr>wire := [(204, None)]\<rparr>,
               resolved := resolved t + 1\<rparr>)"
  using assms
  by (simp add: start_def status_end_def headersSent_def responseResolve_def)

theorem start_notifications_initialized_witness:
  "inbound (HttpOnceTransport (Some (request (JNum 7) ''notifications/initialized'')) fresh)
     = Some (request (JNum 7) ''notifications/initialized'')
   \<and> js_get (request (JNum 7) ''notifications/initialized'') ''id'' = Some (JNum 7)
   \<and> js_get (request (JNum 7) ''notifications/initialized'') ''method''
       = Some (JStr ''notifications/initialized'')
   \<and> wire (res (HttpOnceTransport (Some (request (JNum 7) ''notifications/initialized'')) fresh)) = []
   \<and> fst (start (HttpOnceTransport (Some (request (JNum 7) ''notifications/initialized'')) fresh))
       = Returned
   \<and> wire (res (snd (start (HttpOnceTransport
                               (Some (request (JNum 7) ''notifications/initialized'')) fresh))))
       = [(204, None)]
   \<and> resolved (snd (start (HttpOnceTransport
                             (Some (request (JNum 7) ''notifications/initialized'')) fresh))) = 1"
  using start_notifications_initialized
          [of "HttpOnceTransport (Some (request (JNum 7) ''notifications/initialized'')) fresh"
              "[(''jsonrpc'', JStr ''2.0''), (''id'', JNum 7),
                (''method'', JStr ''notifications/initialized'')]"]
  by (simp add: HttpOnceTransport_def fresh_def request_def)

text \<open>
  C7. An \<open>initialize\<close> request (a message with an id) is answered by the transport
  with status 200 and the fixed handshake object as result, the id echoed, whatever
  callbacks are installed and whatever the tool registry holds; no message is handed to
  the session engine. The handshake has the protocol version \<open>2024-11-05\<close>,
  \<open>capabilities.tools.listChanged\<close> false, an empty \<open>capabilities.logging\<close> and the
  server's name and version.
\<close>

theorem start_initialize:
  assumes "inbound t = Some (JObj kvs)"
    and "map_of kvs ''method'' = Some (JStr ''initialize'')"
    and "map_of kvs ''id'' = Some i"
    and "\<not> responded t"
    and "wire (res t) = []"
  shows "start t =
           (Returned,
            t\<lparr>responded := True,
               res := (res t)\<lparr>wire :=
                  [(200, Some (JObj [(''jsonrpc'', JStr ''2.0''), (''id'', i),
                                     (''result'', handshake)]))]\<rparr>,
               resolved := resolved t + 1\<rparr>)
         \<and> delivered (snd (start t)) = delivered t
         \<and> js_get handshake ''protocolVersion'' = Some (JStr ''2024-11-05'')
         \<and> js_get handshake ''capabilities''
             = Some (JObj [(''tools'', JObj [(''listChanged'', JBool False)]),
                           (''logging'', JObj [])])
         \<and> js_get handshake ''serverInfo''
             = Some (JObj [(''name'', JStr ''opencti-server''), (''version'', JStr ''0.1.0'')])"
  using assms
  by (simp add: start_def then_return_def send_def status_json_def headersSent_def
                responseResolve_def handshake_def obj_def)

theorem start_initialize_witness:
  "inbound (HttpOnceTransport (Some (request (JStr ''1'') ''initialize'')) fresh)
     = Some (request (JStr ''1'') ''initialize'')
   \<and> js_get (request (JStr ''1'') ''initialize'') ''method'' = Some (JStr ''initialize'')
   \<and> js_get (request (JStr ''1'') ''initialize'') ''id'' = Some (JStr ''1'')
   \<and> \<not> responded (HttpOnceTransport (Some (request (JStr ''1'') ''initialize'')) fresh)
   \<and> wire (res (HttpOnceTransport (Some (request (JStr ''1'') ''initialize'')) fresh)) = []
   \<and> wire (res (snd (start (HttpOnceTransport (Some (request (JStr ''1'') ''initialize'')) fresh))))
       = [(200, Some (JObj [(''jsonrpc'', JStr ''2.0''), (''id'', JStr ''1''),
                            (''result'', handshake)]))]
   \<and> delivered (snd (start (HttpOnceTransport (Some (request (JStr ''1'') ''initialize'')) fresh)))
       = []"
  using start_initialize
          [of "HttpOnceTransport (Some (request (JStr ''1'') ''initialize'')) fresh"
              "[(''jsonrpc'', JStr ''2.0''), (''id'', JStr ''1''), (''method'', JStr ''initialize'')]"
              "JStr ''1''"]
  by (simp add: HttpOnceTransport_def fresh_def request_def)

text \<open>
  C8. A \<open>ping\<close> request is answered by the transport with status 200, the empty object
  as result and the id echoed. Nothing else of the transport changes: no message is
  handed to \<open>onmessage\<close>, so neither the session engine nor the tool registry behind it
  runs.
\<close>

theorem start_ping:
  assumes "inbound t = Some (JObj kvs)"
    and "map_of kvs ''method'' = Some (JStr ''ping'')"
    and "map_of kvs ''id'' = Some i"
    and "\<not> responded t"
    and "wire (res t) = []"
  shows "start t =
           (Returned,
            t\<lparr>responded := True,
               res := (res t)\<lparr>wire :=
                  [(200, Some (JObj [(''jsonrpc'', JStr ''2.0''), (''id'', i),
                                     (''result'', JObj [])]))]\<rparr>,
               resolved := resolved t + 1\<rparr>)
         \<and> delivered (snd (start t)) = delivered t"
  using assms
  by (simp add: start_def then_return_def send_def status_json_def headersSent_def
                responseResolve_def obj_def)

theorem start_ping_witness:
  "inbound (HttpOnceTransport (Some (request (JNum 0) ''ping'')) fresh)
     = Some (request (JNum 0) ''ping'')
   \<and> js_get (request (JNum 0) ''ping'') ''method'' = Some (JStr ''ping'')
   \<and> js_get (request (JNum 0) ''ping'') ''id'' = Some (JNum 0)
   \<and> \<not> responded (HttpOnceTransport (Some (request (JNum 0) ''ping'')) fresh)
   \<and> wire (res (HttpOnceTransport (Some (request (JNum 0) ''ping'')) fresh)) = []
   \<and> wire (res (snd (start (HttpOnceTransport (Some (request (JNum 0) ''ping'')) fresh))))
       = [(200, Some (JObj [(''jsonrpc'', JStr ''2.0''), (''id'', JNum 0),
                            (''result'', JObj [])]))]
   \<and> delivered (snd (start (HttpOnceTransport (Some (request (JNum 0) ''ping'')) fresh))) = []"
  using start_ping
          [of "HttpOnceTransport (Some (request (JNum 0) ''ping'')) fresh"
              "[(''jsonrpc'', JStr ''2.0''), (''id'', JNum 0), (''method'', JStr ''ping'')]"
              "JNum 0"]
  by (simp add: HttpOnceTransport_def fresh_def request_def)


section \<open>At most one response\<close>

lemma send_once: "once t \<Longrightarrow> once (snd (send m t))"
  by (auto simp: once_def send_def wire_defs Let_def split: option.splits prod.splits if_splits)

lemma send_never_rejects: "fst (send m t) = None"
  by (auto simp: send_def wire_defs Let_def split: option.splits prod.splits)

lemma send_sets_responded: "responded (snd (send m t))"
  by (auto simp: send_def wire_defs Let_def split: option.splits prod.splits)

lemma send_again: "responded t \<Longrightarrow> send m t = (None, t\<lparr>warnings := warnings t + 1\<rparr>)"
  by (simp add: send_def)

lemma sendError_once: "once t \<Longrightarrow> once (snd (sendError c s i t))"
  by (auto simp: once_def sendError_def wire_defs Let_def
           split: option.splits prod.splits if_splits)

lemma sendError_sets_responded: "responded (snd (sendError c s i t))"
  by (auto simp: sendError_def wire_defs Let_def split: option.splits prod.splits)

lemma close_once: "once t \<Longrightarrow> once (close t)"
  by (auto simp: once_def close_def wire_defs Let_def split: if_splits)

lemma close_keeps_responded: "responded (close t) = responded t"
  by (simp add: close_def wire_defs Let_def)

lemma perform_once: "once t \<Longrightarrow> once (perform cs t)"
proof (induction cs arbitrary: t)
  case Nil
  then show ?case by simp
next
  case (Cons c cs)
  then show ?case by (cases c) (simp_all add: send_once close_once)
qed

lemma call_onmessage_once:
  assumes "once t"
  shows "once (snd (call_onmessage f msg t))"
proof -
  have "once (t\<lparr>delivered := delivered t @ [msg]\<rparr>)"
    using assms by (simp add: once_def)
  then show ?thesis
    by (cases "f msg") (simp add: call_onmessage_def perform_once)
qed

lemma deliver_all_once: "once t \<Longrightarrow> once (snd (deliver_all f msgs t))"
proof (induction msgs arbitrary: t)
  case Nil
  then show ?case by simp
next
  case (Cons msg msgs)
  have "once (snd (call_onmessage f msg t))"
    using Cons.prems by (rule call_onmessage_once)
  then show ?case
    using Cons.IH by (cases "call_onmessage f msg t") (auto split: option.splits)
qed

lemma start_catch_once:
  assumes "once t"
  shows "once (snd (start_catch e t))"
proof -
  let ?t1 = "if onerror t then t\<lparr>routed := routed t @ [e]\<rparr> else t"
  have t1: "once ?t1"
    using assms by (simp add: once_def)
  show ?thesis
  proof (cases "member (inbound ?t1) ''id''")
    case (Inl x)
    then show ?thesis
      using t1 by (auto simp: start_catch_def Let_def)
  next
    case (Inr i)
    have "once (snd (sendError (- 32603) ''Internal error'' (or_null i) ?t1))"
      using t1 by (rule sendError_once)
    then show ?thesis
      using t1 Inr by (auto simp: start_catch_def Let_def split: prod.splits option.splits)
  qed
qed

lemma then_return_once: "once (snd x) \<Longrightarrow> once (snd (then_return x))"
  by (cases x) (auto simp: then_return_def start_catch_once split: option.splits)

lemma notified_once:
  "once t \<Longrightarrow> once (responseResolve (t\<lparr>responded := True, res := status_end 204 (res t)\<rparr>))"
  by (auto simp: once_def wire_defs)

lemma forwarded_once:
  assumes "once t"
  shows "once (snd (case onmessage t of
                      None \<Rightarrow> (None, t)
                    | Some f \<Rightarrow>
                        (case inb of
                           JArr msgs \<Rightarrow> deliver_all f msgs t
                         | _ \<Rightarrow> call_onmessage f inb t)))"
  using assms
  by (auto simp: deliver_all_once call_onmessage_once split: option.splits json.splits)

lemma start_once:
  assumes "once t"
  shows "once (snd (start t))"
proof (cases "inbound t")
  case None
  then show ?thesis
    using assms by (simp add: start_def start_catch_once)
next
  case (Some inb)
  let ?fw = "case onmessage t of
               None \<Rightarrow> (None, t)
             | Some f \<Rightarrow>
                 (case inb of
                    JArr msgs \<Rightarrow> deliver_all f msgs t
                  | _ \<Rightarrow> call_onmessage f inb t)"
  have fw: "once (snd ?fw)"
    using assms by (rule forwarded_once)
  have awaited: "once (snd (case ?fw of
                   (Some e, t') \<Rightarrow> start_catch e t'
                 | (None, t') \<Rightarrow>
                     (if 0 < resolved t' then (Returned, t') else (Suspended, t'))))"
    using fw by (cases ?fw) (auto simp: start_catch_once split: option.splits)
  show ?thesis
    using assms Some awaited
    by (simp add: start_def Let_def start_catch_once then_return_once send_once
                  sendError_once notified_once del: truthy.simps is_object.simps)
qed

lemma invoke_once: "once t \<Longrightarrow> once (invoke i t)"
  by (cases i) (simp_all add: start_once send_once sendError_once close_once)

lemma run_once: "once t \<Longrightarrow> once (run is t)"
  by (induction "is" arbitrary: t) (simp_all add: invoke_once)

text \<open>
  C1, as the code has it. Take a transport on which nothing has been written and
  \<open>responded\<close> is unset, with any inbound message and any callbacks, and invoke
  \<open>start\<close>, \<open>send\<close>, \<open>sendError\<close> and \<open>close\<close> on it in any order, any number of
  times. Then at most one response has reached the client; if \<open>responded\<close> is set,
  exactly one has. A further \<open>send\<close> never raises and leaves \<open>responded\<close> set, as
  does a further \<open>sendError\<close>; if \<open>responded\<close> was already set, that \<open>send\<close> changes
  nothing but the count of warnings.
\<close>

theorem at_most_one_response:
  assumes "wire (res t) = []" and "\<not> responded t"
  shows "length (wire (res (run ops t))) \<le> 1
       \<and> (responded (run ops t) \<longrightarrow> length (wire (res (run ops t))) = 1)
       \<and> fst (send m (run ops t)) = None
       \<and> responded (snd (send m (run ops t)))
       \<and> responded (snd (sendError code message i (run ops t)))
       \<and> (responded (run ops t) \<longrightarrow>
            send m (run ops t) = (None, (run ops t)\<lparr>warnings := warnings (run ops t) + 1\<rparr>))"
proof -
  have "once t"
    using assms by (simp add: once_def)
  then have "once (run ops t)"
    by (rule run_once)
  then have "length (wire (res (run ops t))) \<le> 1"
    and "responded (run ops t) \<longrightarrow> length (wire (res (run ops t))) = 1"
    by (auto simp: once_def le_Suc_eq)
  then show ?thesis
    by (simp add: send_never_rejects send_sets_responded sendError_sets_responded send_again)
qed

theorem at_most_one_response_witness:
  "wire (res (HttpOnceTransport (Some (request (JNum 1) ''tools/list'')) fresh)) = []
   \<and> \<not> responded (HttpOnceTransport (Some (request (JNum 1) ''tools/list'')) fresh)
   \<and> length (wire (res (run [InvSend (Some (JObj [])), InvClose, InvStart]
                           (HttpOnceTransport (Some (request (JNum 1) ''tools/list'')) fresh)))) \<le> 1
   \<and> responded (run [InvSend (Some (JObj [])), InvClose, InvStart]
                   (HttpOnceTransport (Some (request (JNum 1) ''tools/list'')) fresh))
   \<and> send (Some (JObj [(''late'', JBool True)]))
          (run [InvSend (Some (JObj [])), InvClose, InvStart]
             (HttpOnceTransport (Some (request (JNum 1) ''tools/list'')) fresh))
       = (None,
          (run [InvSend (Some (JObj [])), InvClose, InvStart]
             (HttpOnceTransport (Some (request (JNum 1) ''tools/list'')) fresh))
            \<lparr>warnings := 1\<rparr>)"
  using at_most_one_response
          [of "HttpOnceTransport (Some (request (JNum 1) ''tools/list'')) fresh"
              "[InvSend (Some (JObj [])), InvClose, InvStart]"
              "Some (JObj [(''late'', JBool True)])"]
  by (simp add: start_defs wire_defs close_def request_def)

text \<open>
  The claim as stated fails on \<open>close\<close>: on a new transport it writes the 204 and
  leaves \<open>responded\<close> unset, so a \<open>send\<close> that follows is no warning and no-op; it
  attempts a second write, which the response object refuses.
\<close>

theorem close_then_send_counterexample:
  "wire (res (close (HttpOnceTransport (Some (request (JNum 1) ''tools/list'')) fresh)))
     = [(204, None)]
   \<and> \<not> responded (close (HttpOnceTransport (Some (request (JNum 1) ''tools/list'')) fresh))
   \<and> warnings (snd (send (Some (JObj []))
                      (close (HttpOnceTransport (Some (request (JNum 1) ''tools/list'')) fresh))))
       = 0
   \<and> refused (res (snd (send (Some (JObj []))
                      (close (HttpOnceTransport (Some (request (JNum 1) ''tools/list'')) fresh)))))
       = 1"
  by (simp add: start_defs wire_defs close_def request_def)

section \<open>Identifiers in responses\<close>

text \<open>
  C2 at a request whose id is the number 0. When the engine answers with a bare result,
  \<open>send\<close> wraps it with the id \<open>null\<close>; when the engine throws, the Internal Error
  response carries the id \<open>null\<close> as well. In both the request's id is lost, because
  \<open>id || null\<close> replaces every falsy id.
\<close>

theorem falsy_id_replaced_by_null:
  "reply (post_mcp (answering (Some (JObj [(''tools'', JArr [])])))
            (Parsed (Some (request (JNum 0) ''tools/list''))))
     = [(200, Some (JObj [(''jsonrpc'', JStr ''2.0''), (''id'', JNull),
                          (''result'', JObj [(''tools'', JArr [])])]))]
   \<and> reply (post_mcp (throwing (Error ''boom''))
              (Parsed (Some (request (JNum 0) ''tools/list''))))
       = [(200, Some (JObj [(''jsonrpc'', JStr ''2.0''), (''id'', JNull),
                            (''error'', JObj [(''code'', JNum (- 32603)),
                                              (''message'', JStr ''Internal error'')])]))]"
  by (simp add: route_defs start_defs wire_defs request_def answering_def throwing_def)

theorem falsy_id_replaced_by_null_witness:
  "js_get (request (JNum 0) ''tools/list'') ''id'' = Some (JNum 0)
   \<and> map (\<lambda>(status, b). opt_member b ''id'')
         (reply (post_mcp (answering (Some (JObj [(''tools'', JArr [])])))
                   (Parsed (Some (request (JNum 0) ''tools/list'')))))
       = [Some JNull]"
  using falsy_id_replaced_by_null by (simp add: request_def)

section \<open>Notifications\<close>

text \<open>
  C3 at a notification whose method is \<open>initialize\<close>. The message has no id, yet the
  endpoint answers it with status 200 and a JSON-RPC object: the handshake response,
  whose id is \<open>undefined\<close>, is not recognised by \<open>send\<close> as complete and is wrapped
  once more, with the id \<open>null\<close>.
\<close>

theorem initialize_notification_answered:
  "reply (post_mcp idle_engine (Parsed (Some (notification ''initialize''))))
     = [(200, Some (JObj [(''jsonrpc'', JStr ''2.0''), (''id'', JNull),
                          (''result'', JObj [(''jsonrpc'', JStr ''2.0''),
                                             (''result'', handshake)])]))]"
  by (simp add: route_defs start_defs wire_defs notification_def)

theorem initialize_notification_answered_witness:
  "\<not> has_key ''id'' (notification ''initialize'')
   \<and> map fst (reply (post_mcp idle_engine (Parsed (Some (notification ''initialize''))))) = [200]"
  using initialize_notification_answered by (simp add: notification_def)

section \<open>Malformed envelopes\<close>

text \<open>
  An id that does not convert to a string makes the route's log line throw: the
  \<open>catch\<close> block answers with status 500, whatever else the body holds.
\<close>

lemma log_line_throws:
  "reply (post_mcp idle_engine (Parsed (Some (JObj [(''id'', JObj [(''toString'', JNum 1)])]))))
     = [(500, Some (JObj [(''jsonrpc'', JStr ''2.0''),
                          (''error'', JObj [(''code'', JNum (- 32603)),
                                            (''message'', JStr ''Internal error''),
                                            (''data'', JStr ''Cannot convert object to primitive value'')]),
                          (''id'', JNull)]))]"
  by (simp add: route_defs wire_defs fresh_def obj_def)

text \<open>
  C4, as the code has it, for a POST that passes the authentication middleware. When
  \<open>req.body\<close> is falsy, as it is when no body was parsed into it, the answer has status
  400 and the error code -32700. When \<open>req.body\<close> is truthy and its \<open>method\<close> and
  \<open>id\<close> convert to strings in the log line, the answer has status 400 and the code
  -32600 if its \<open>jsonrpc\<close> is not the string \<open>2.0\<close>, and also if its \<open>jsonrpc\<close> is
  right and its \<open>method\<close> is missing or falsy; this is the answer for \<open>{}\<close> and for
  arrays. In each case the body is a JSON-RPC error object and no transport is
  constructed. A body that does not parse never reaches the route: the error handler
  answers it with status 500 and an object that has no error code; no transport is
  constructed either.
\<close>

theorem malformed_envelope_rejected:
  "(\<not> truthy inb \<longrightarrow>
      post_mcp engine (Parsed inb) =
        NoAdapter \<lparr>wire = [(400, Some (JObj [(''jsonrpc'', JStr ''2.0''),
                       (''error'', JObj [(''code'', JNum (- 32700)),
                                         (''message'', JStr ''Parse error: Empty request body'')]),
                       (''id'', JNull)]))],
                   refused = 0\<rparr>)
   \<and> (truthy inb
        \<and> \<not> interpolation_throws (opt_member inb ''method'')
        \<and> \<not> interpolation_throws (opt_member inb ''id'')
        \<and> opt_member inb ''jsonrpc'' \<noteq> Some (JStr ''2.0'') \<longrightarrow>
      post_mcp engine (Parsed inb) =
        NoAdapter \<lparr>wire = [(400, Some (JObj [(''jsonrpc'', JStr ''2.0''),
                       (''error'', JObj [(''code'', JNum (- 32600)),
                                         (''message'', JStr (''Invalid Request: jsonrpc must be ''
                                                             @ [CHR 0x22] @ ''2.0'' @ [CHR 0x22]))]),
                       (''id'', or_null (opt_member inb ''id''))]))],
                   refused = 0\<rparr>)
   \<and> (truthy inb
        \<and> \<not> interpolation_throws (opt_member inb ''method'')
        \<and> \<not> interpolation_throws (opt_member inb ''id'')
        \<and> opt_member inb ''jsonrpc'' = Some (JStr ''2.0'')
        \<and> \<not> truthy (opt_member inb ''method'') \<longrightarrow>
      post_mcp engine (Parsed inb) =
        NoAdapter \<lparr>wire = [(400, Some (JObj [(''jsonrpc'', JStr ''2.0''),
                       (''error'', JObj [(''code'', JNum (- 32600)),
                                         (''message'', JStr ''Invalid Request: method is required'')]),
                       (''id'', or_null (opt_member inb ''id''))]))],
                   refused = 0\<rparr>)
   \<and> post_mcp engine (ParseFailed message) =
        NoAdapter \<lparr>wire = [(500, Some (JObj [(''error'', JStr ''Internal Server Error''),
                                               (''message'', JStr message)]))],
                   refused = 0\<rparr>"
  by (simp add: route_defs wire_defs fresh_def obj_def)

theorem malformed_envelope_rejected_witness:
  "\<not> truthy None
   \<and> reply (post_mcp idle_engine (Parsed None))
       = [(400, Some (JObj [(''jsonrpc'', JStr ''2.0''),
                            (''error'', JObj [(''code'', JNum (- 32700)),
                                              (''message'', JStr ''Parse error: Empty request body'')]),
                            (''id'', JNull)]))]
   \<and> truthy (Some (JObj [(''foo'', JStr ''bar'')]))
   \<and> \<not> interpolation_throws (opt_member (Some (JObj [(''foo'', JStr ''bar'')])) ''method'')
   \<and> \<not> interpolation_throws (opt_member (Some (JObj [(''foo'', JStr ''bar'')])) ''id'')
   \<and> opt_member (Some (JObj [(''foo'', JStr ''bar'')])) ''jsonrpc'' \<noteq> Some (JStr ''2.0'')
   \<and> reply (post_mcp idle_engine (Parsed (Some (JObj [(''foo'', JStr ''bar'')]))))
       = [(400, Some (JObj [(''jsonrpc'', JStr ''2.0''),
                            (''error'', JObj [(''code'', JNum (- 32600)),
                                              (''message'', JStr (''Invalid Request: jsonrpc must be ''
                                                                  @ [CHR 0x22] @ ''2.0'' @ [CHR 0x22]))]),
                            (''id'', JNull)]))]
   \<and> truthy (Some (JObj [(''jsonrpc'', JStr ''2.0''), (''id'', JNum 5)]))
   \<and> \<not> interpolation_throws
         (opt_member (Some (JObj [(''jsonrpc'', JStr ''2.0''), (''id'', JNum 5)])) ''method'')
   \<and> \<not> interpolation_throws
         (opt_member (Some (JObj [(''jsonrpc'', JStr ''2.0''), (''id'', JNum 5)])) ''id'')
   \<and> opt_member (Some (JObj [(''jsonrpc'', JStr ''2.0''), (''id'', JNum 5)])) ''jsonrpc''
       = Some (JStr ''2.0'')
   \<and> \<not> truthy (opt_member (Some (JObj [(''jsonrpc'', JStr ''2.0''), (''id'', JNum 5)])) ''method'')
   \<and> reply (post_mcp idle_engine (Parsed (Some (JObj [(''jsonrpc'', JStr ''2.0''), (''id'', JNum 5)]))))
       = [(400, Some (JObj [(''jsonrpc'', JStr ''2.0''),
                            (''error'', JObj [(''code'', JNum (- 32600)),
                                              (''message'', JStr ''Invalid Request: method is required'')]),
                            (''id'', JNum 5)]))]"
  using malformed_envelope_rejected [where inb = None and engine = idle_engine]
        malformed_envelope_rejected
          [where inb = "Some (JObj [(''foo'', JStr ''bar'')])" and engine = idle_engine]
        malformed_envelope_rejected
          [where inb = "Some (JObj [(''jsonrpc'', JStr ''2.0''), (''id'', JNum 5)])"
             and engine = idle_engine]
  by (simp add: or_null_def interpolation_throws_def)

text \<open>
  The claim as stated fails for a body that is not parseable JSON: the answer has status
  500, not 400, and its body is no JSON-RPC error object.
\<close>

theorem unparseable_body_counterexample:
  "reply (post_mcp idle_engine (ParseFailed ''Unexpected end of JSON input''))
     = [(500, Some (JObj [(''error'', JStr ''Internal Server Error''),
                          (''message'', JStr ''Unexpected end of JSON input'')]))]"
  by (simp add: route_defs wire_defs fresh_def obj_def)

section \<open>Unknown tools\<close>

text \<open>
  C5, as the code has it. Take a name that is no key of \<open>TOOL_HANDLERS\<close>. The handler
  of the one-shot HTTP server returns for it, whatever the arguments, a result whose
  \<open>isError\<close> is true; it does not throw. Take a \<open>tools/call\<close> request with
  \<open>jsonrpc\<close> 2.0, that name as \<open>params.name\<close> and an id that converts to a string, as
  every string, number and \<open>null\<close> does, posted past the authentication middleware.
  Whether the engine hands \<open>send\<close> a complete response or the bare result, the endpoint
  answers with status 200 and one JSON-RPC object that has a \<open>result\<close> and no
  \<open>error\<close>; the result has \<open>isError\<close> true and one text block with a message: the
  \<open>McpError\<close> for MethodNotFound prefixed by \<open>MCP Error:\<close>, or, when the name is a
  property of \<open>Object.prototype\<close>, the \<open>TypeError\<close> prefixed by
  \<open>Unexpected error:\<close>. The answer is the same when the engine sends it only after
  \<open>start\<close> has suspended. In the SSE and stdio servers the handler rethrows the error
  instead.
\<close>

theorem unknown_tool_is_error_result:
  assumes "js_get inb ''jsonrpc'' = Some (JStr ''2.0'')"
    and "js_get inb ''method'' = Some (JStr ''tools/call'')"
    and "js_get inb ''id'' = Some i"
    and "\<not> to_string_throws i"
    and "js_get inb ''params'' = Some p"
    and "js_get p ''name'' = Some (JStr toolName)"
    and "map_of TOOL_HANDLERS toolName = None"
  shows "reply (post_mcp (tools_call_engine c complete) (Parsed (Some inb)))
           = [(200, Some (JObj [(''jsonrpc'', JStr ''2.0''),
                 (''id'', if complete then i else or_null (Some i)),
                 (''result'',
                  JObj [(''content'',
                         JArr [JObj [(''type'', JStr ''text''),
                                     (''text'',
                                      JStr (if toolName \<in> set object_prototype
                                            then ''Unexpected error: this.requestHandler[handlerMethod] is not a function''
                                            else ''MCP Error: '' @ mcp_message c MethodNotFound
                                                                     (''Unknown tool: '' @ toolName)))]]),
                        (''isError'', JBool True)])]))]
       \<and> js_get (callTool c toolName arguments) ''isError'' = Some (JBool True)
       \<and> post_mcp idle_engine (Parsed (Some inb))
           = WithAdapter Suspended
               ((HttpOnceTransport (Some inb) fresh)
                  \<lparr>onmessage := Some idle_engine, onerror := True, onclose := True,
                   delivered := [inb]\<rparr>)
       \<and> map_option
             (\<lambda>answer. wire (res (snd (send (Some answer)
                ((HttpOnceTransport (Some inb) fresh)
                   \<lparr>onmessage := Some idle_engine, onerror := True, onclose := True,
                    delivered := [inb]\<rparr>)))))
             (tools_call_answer c complete inb)
           = Some (reply (post_mcp (tools_call_engine c complete) (Parsed (Some inb))))
       \<and> callTool_sse c toolName arguments
           = Inl (if toolName \<in> set object_prototype
                  then OtherError ''this.requestHandler[handlerMethod] is not a function''
                  else McpError MethodNotFound (''Unknown tool: '' @ toolName))"
proof -
  obtain kvs where inb: "inb = JObj kvs"
    using assms(1) by (cases inb) simp_all
  obtain ps where p: "p = JObj ps"
    using assms(6) by (cases p) simp_all
  have k: "has_key ''id'' inb"
    using assms(3) inb by (auto dest!: map_of_SomeD intro: rev_image_eqI)
  show ?thesis
    using assms inb p k
    by (simp add: route_defs start_defs wire_defs tools_call_engine_def tools_call_answer_def
                  idle_engine_def callTool_def handleError_def error_result_def
                  callTool_sse_def handleError_sse_def
             del: has_key.simps)
qed

theorem unknown_tool_is_error_result_witness:
  "js_get (call_request (JStr ''3'') ''nonexistent_tool'') ''jsonrpc'' = Some (JStr ''2.0'')
   \<and> js_get (call_request (JStr ''3'') ''nonexistent_tool'') ''method'' = Some (JStr ''tools/call'')
   \<and> js_get (call_request (JStr ''3'') ''nonexistent_tool'') ''id'' = Some (JStr ''3'')
   \<and> \<not> to_string_throws (JStr ''3'')
   \<and> js_get (call_request (JStr ''3'') ''nonexistent_tool'') ''params''
       = Some (JObj [(''name'', JStr ''nonexistent_tool''), (''arguments'', JObj [])])
   \<and> map_of TOOL_HANDLERS ''nonexistent_tool'' = None
   \<and> reply (post_mcp (tools_call_engine unreachable True)
               (Parsed (Some (call_request (JStr ''3'') ''nonexistent_tool''))))
       = [(200, Some (JObj [(''jsonrpc'', JStr ''2.0''), (''id'', JStr ''3''),
             (''result'',
              JObj [(''content'',
                     JArr [JObj [(''type'', JStr ''text''),
                                 (''text'', JStr ''MCP Error: MCP error -32601: Unknown tool: nonexistent_tool'')]]),
                    (''isError'', JBool True)])]))]"
  using unknown_tool_is_error_result
          [of "call_request (JStr ''3'') ''nonexistent_tool''" "JStr ''3''"
              "JObj [(''name'', JStr ''nonexistent_tool''), (''arguments'', JObj [])]"
              "''nonexistent_tool''" unreachable True]
  by (simp add: call_request_def TOOL_HANDLERS_def object_prototype_def unreachable_def
                MethodNotFound_def show_int_def digit_def)

text \<open>
  The claim as stated fails in the SSE server of \<open>index-http.ts\<close>, whose
  \<open>handleError\<close> the claim cites, and in the stdio server: for an unregistered name
  the handler does not return a result with \<open>isError\<close>; its promise rejects with the
  \<open>McpError\<close> for MethodNotFound, which is then the session engine's to report as a
  protocol error.
\<close>

theorem sse_handler_rethrows_counterexample:
  "map_of TOOL_HANDLERS ''nonexistent_tool'' = None
   \<and> callTool_sse unreachable ''nonexistent_tool'' (Some (JObj []))
       = Inl (McpError MethodNotFound ''Unknown tool: nonexistent_tool'')"
  by (simp add: callTool_sse_def handleError_sse_def TOOL_HANDLERS_def object_prototype_def)

section \<open>Exceptions in \<open>start\<close>\<close>

text \<open>
  C6 at the inbound value \<open>null\<close>. \<open>start\<close> throws on it and hands the error to the
  error callback, but the \<open>catch\<close> block then reads \<open>this.inbound.id\<close> and throws
  again: the promise rejects, no response is written and the completion signal does not
  fire.
\<close>

theorem start_null_inbound_rejects:
  "start ((HttpOnceTransport (Some JNull) fresh)\<lparr>onerror := True\<rparr>)
     = (Rejected (TypeError ''Cannot read properties of null''),
        (HttpOnceTransport (Some JNull) fresh)
          \<lparr>onerror := True, routed := [Error ''Invalid JSON-RPC message structure'']\<rparr>)"
  by (simp add: start_defs wire_defs)

theorem start_null_inbound_rejects_witness:
  "wire (res (snd (start ((HttpOnceTransport (Some JNull) fresh)\<lparr>onerror := True\<rparr>)))) = []
   \<and> resolved (snd (start ((HttpOnceTransport (Some JNull) fresh)\<lparr>onerror := True\<rparr>))) = 0"
  using start_null_inbound_rejects by (simp add: HttpOnceTransport_def fresh_def)

section \<open>Batches\<close>

lemma delivered_sendError: "delivered (snd (sendError c s i t)) = delivered t"
  by (auto simp: sendError_def wire_defs Let_def split: option.splits prod.splits)

lemma delivered_start_catch: "delivered (snd (start_catch e t)) = delivered t"
proof -
  let ?t1 = "if onerror t then t\<lparr>routed := routed t @ [e]\<rparr> else t"
  have t1: "delivered ?t1 = delivered t"
    by simp
  show ?thesis
  proof (cases "member (inbound ?t1) ''id''")
    case (Inl x)
    then show ?thesis
      using t1 by (auto simp: start_catch_def Let_def)
  next
    case (Inr i)
    have "delivered (snd (sendError (- 32603) ''Internal error'' (or_null i) ?t1)) = delivered ?t1"
      by (rule delivered_sendError)
    then show ?thesis
      using t1 Inr by (auto simp: start_catch_def Let_def split: prod.splits option.splits)
  qed
qed

text \<open>Whatever the state of the transport, no element of an array is handed on.\<close>

lemma array_is_never_delivered:
  assumes "inbound t = Some (JArr msgs)"
  shows "delivered (snd (start t)) = delivered t"
proof -
  have "delivered (snd (then_return (sendError (- 32600) ''Invalid Request'' JNull t))) = delivered t"
    using delivered_sendError [of "- 32600" "''Invalid Request''" JNull t]
    by (cases "sendError (- 32600) ''Invalid Request'' JNull t")
       (auto simp: then_return_def delivered_start_catch split: option.splits)
  then show ?thesis
    using assms by (simp add: start_def)
qed

text \<open>
  C10 at an array of two requests. An array has no \<open>id\<close> and no \<open>method\<close>, so
  \<open>start\<close> takes it for a notification without a method and answers Invalid Request
  with the id \<open>null\<close>; the loop that would hand each element to \<open>onmessage\<close> is never
  reached and nothing is delivered. The endpoint rejects the same body with status 400
  before a transport exists.
\<close>

theorem start_array_not_delivered:
  "start ((HttpOnceTransport
             (Some (JArr [request (JNum 1) ''tools/list'', request (JNum 2) ''tools/list'']))
             fresh)\<lparr>onmessage := Some (answering (Some (JObj [])))\<rparr>)
     = (Returned,
        (HttpOnceTransport
           (Some (JArr [request (JNum 1) ''tools/list'', request (JNum 2) ''tools/list'']))
           \<lparr>wire = [(200, Some (JObj [(''jsonrpc'', JStr ''2.0''), (''id'', JNull),
                                       (''error'', JObj [(''code'', JNum (- 32600)),
                                                         (''message'', JStr ''Invalid Request'')])]))],
             refused = 0\<rparr>)
          \<lparr>onmessage := Some (answering (Some (JObj []))), responded := True, resolved := 1\<rparr>)
   \<and> map fst (reply (post_mcp (answering (Some (JObj [])))
                       (Parsed (Some (JArr [request (JNum 1) ''tools/list'',
                                            request (JNum 2) ''tools/list''])))))
       = [400]"
  by (simp add: route_defs start_defs wire_defs)

theorem start_array_not_delivered_witness:
  "delivered (snd (start ((HttpOnceTransport
             (Some (JArr [request (JNum 1) ''tools/list'', request (JNum 2) ''tools/list'']))
             fresh)\<lparr>onmessage := Some (answering (Some (JObj [])))\<rparr>))) = []"
  using start_array_not_delivered by (simp add: HttpOnceTransport_def)

end
